theory Spec2Isabelle
  imports Complex_Main "HOL-Library.Multiset"
begin

section \<open>Request payloads\<close>

text \<open>
  A request body is the object the JSON body parser hands to the controller: a list of
  key/value pairs in property order, looked up with \<open>map_of\<close>. Numbers are the finite
  values a JSON number can take, every one of them a rational; a string is its sequence
  of code units, which is what the validator's length rule counts.
\<close>

datatype json =
    JNull
  | JBool bool
  | JNumber rat
  | JString string
  | JArray "json list"
  | JObject "(string \<times> json) list"

type_synonym obj = "(string \<times> json) list"

text \<open>
  The value a schema returns: an object whose keys are among the five of the schema, each
  with the type its rule accepts. A field that is \<open>None\<close> is a key the object does not have.
\<close>

record perk_fields =
  f_title :: "string option"
  f_description :: "string option"
  f_category :: "string option"
  f_discountPercent :: "rat option"
  f_merchant :: "string option"

section \<open>The validation library's rules, as the two schemas use them\<close>

text \<open>
  The error of a failed validation. Validation stops at the first error (the library's
  default), so a failure is one error, and \<open>error.message\<close> is its text. Each error
  carries the key it is about.
\<close>

datatype joi_error =
    AnyRequired string
  | AnyOnly string "string list"
  | StringBase string
  | StringEmpty string
  | StringMin string nat
  | NumberBase string
  | NumberUnsafe string
  | NumberMin string rat
  | NumberMax string rat
  | ObjectUnknown string
  | ObjectMin nat

text \<open>
  The number rule converts a string that reads as a number. What a string reads as is the
  library's business and is a parameter of every validator here: the string is not
  numeric, or it is numeric and loses precision, or it is a number.
\<close>

datatype coerced = NotNumeric | UnsafeNumber | Coerced rat

text \<open>\<open>Joi.string().min(n)\<close>: a string, not empty, of at least \<open>n\<close> code units.\<close>

definition joi_string_min :: "string \<Rightarrow> nat \<Rightarrow> json \<Rightarrow> joi_error + string" where
  "joi_string_min k n v =
     (case v of
        JString s \<Rightarrow>
          if s = [] then Inl (StringEmpty k)
          else if length s < n then Inl (StringMin k n)
          else Inr s
      | _ \<Rightarrow> Inl (StringBase k))"

text \<open>\<open>Joi.string().allow('')\<close>: any string, the empty one included.\<close>

definition joi_string_allow_empty :: "string \<Rightarrow> json \<Rightarrow> joi_error + string" where
  "joi_string_allow_empty k v =
     (case v of JString s \<Rightarrow> Inr s | _ \<Rightarrow> Inl (StringBase k))"

text \<open>\<open>Joi.string().valid(...)\<close>: one of the listed strings and nothing else.\<close>

definition joi_string_valid :: "string \<Rightarrow> string list \<Rightarrow> json \<Rightarrow> joi_error + string" where
  "joi_string_valid k allowed v =
     (case v of
        JString s \<Rightarrow> if s \<in> set allowed then Inr s else Inl (AnyOnly k allowed)
      | _ \<Rightarrow> Inl (AnyOnly k allowed))"

definition MAX_SAFE_INTEGER :: rat where
  "MAX_SAFE_INTEGER = 9007199254740991"

text \<open>The rules of \<open>Joi.number().min(lo).max(hi)\<close> on a number, in the order they run.\<close>

definition number_rules :: "string \<Rightarrow> rat \<Rightarrow> rat \<Rightarrow> rat \<Rightarrow> joi_error + rat" where
  "number_rules k lo hi n =
     (if n > MAX_SAFE_INTEGER \<or> n < - MAX_SAFE_INTEGER then Inl (NumberUnsafe k)
      else if n < lo then Inl (NumberMin k lo)
      else if n > hi then Inl (NumberMax k hi)
      else Inr n)"

definition joi_number_min_max ::
  "(string \<Rightarrow> coerced) \<Rightarrow> string \<Rightarrow> rat \<Rightarrow> rat \<Rightarrow> json \<Rightarrow> joi_error + rat" where
  "joi_number_min_max c k lo hi v =
     (case v of
        JNumber n \<Rightarrow> number_rules k lo hi n
      | JString s \<Rightarrow>
          (case c s of
             NotNumeric \<Rightarrow> Inl (NumberBase k)
           | UnsafeNumber \<Rightarrow> Inl (NumberUnsafe k)
           | Coerced n \<Rightarrow> number_rules k lo hi n)
      | _ \<Rightarrow> Inl (NumberBase k))"

text \<open>
  Presence of a key: \<open>.required()\<close> fails on a missing key, \<open>.default(d)\<close> fills it in, and
  a rule with neither leaves a missing key missing.
\<close>

definition required :: "string \<Rightarrow> (json \<Rightarrow> joi_error + 'a) \<Rightarrow> obj \<Rightarrow> joi_error + 'a option" where
  "required k rule body =
     (case map_of body k of
        None \<Rightarrow> Inl (AnyRequired k)
      | Some v \<Rightarrow> (case rule v of Inl e \<Rightarrow> Inl e | Inr a \<Rightarrow> Inr (Some a)))"

definition optional :: "string \<Rightarrow> (json \<Rightarrow> joi_error + 'a) \<Rightarrow> obj \<Rightarrow> joi_error + 'a option" where
  "optional k rule body =
     (case map_of body k of
        None \<Rightarrow> Inr None
      | Some v \<Rightarrow> (case rule v of Inl e \<Rightarrow> Inl e | Inr a \<Rightarrow> Inr (Some a)))"

definition with_default ::
  "string \<Rightarrow> 'a \<Rightarrow> (json \<Rightarrow> joi_error + 'a) \<Rightarrow> obj \<Rightarrow> joi_error + 'a option" where
  "with_default k d rule body =
     (case map_of body k of
        None \<Rightarrow> Inr (Some d)
      | Some v \<Rightarrow> (case rule v of Inl e \<Rightarrow> Inl e | Inr a \<Rightarrow> Inr (Some a)))"

definition categories :: "string list" where
  "categories = [''food'', ''tech'', ''travel'', ''fitness'', ''other'']"

definition schema_keys :: "string list" where
  "schema_keys = [''title'', ''description'', ''category'', ''discountPercent'', ''merchant'']"

text \<open>
  An object schema checks its keys in the order they are declared and then rejects the
  first key of the body it does not declare.
\<close>

definition unknown_key :: "obj \<Rightarrow> string option" where
  "unknown_key body = List.find (\<lambda>k. k \<notin> set schema_keys) (map fst body)"

section \<open>The two schemas\<close>

text \<open>\<open>perkSchema\<close>: the schema for creating a perk.\<close>

definition perkSchema_validate :: "(string \<Rightarrow> coerced) \<Rightarrow> obj \<Rightarrow> joi_error + perk_fields" where
  "perkSchema_validate c body =
     (case required ''title'' (joi_string_min ''title'' 2) body of
        Inl e \<Rightarrow> Inl e
      | Inr t \<Rightarrow>
     (case optional ''description'' (joi_string_allow_empty ''description'') body of
        Inl e \<Rightarrow> Inl e
      | Inr d \<Rightarrow>
     (case with_default ''category'' ''other''
             (joi_string_valid ''category'' categories) body of
        Inl e \<Rightarrow> Inl e
      | Inr cat \<Rightarrow>
     (case with_default ''discountPercent'' 0
             (joi_number_min_max c ''discountPercent'' 0 100) body of
        Inl e \<Rightarrow> Inl e
      | Inr p \<Rightarrow>
     (case optional ''merchant'' (joi_string_allow_empty ''merchant'') body of
        Inl e \<Rightarrow> Inl e
      | Inr m \<Rightarrow>
     (case unknown_key body of
        Some k \<Rightarrow> Inl (ObjectUnknown k)
      | None \<Rightarrow>
          Inr \<lparr>f_title = t, f_description = d, f_category = cat,
               f_discountPercent = p, f_merchant = m\<rparr>))))))"

text \<open>\<open>perkUpdateSchema\<close>: every key optional, no defaults, at least one key.\<close>

definition perkUpdateSchema_validate :: "(string \<Rightarrow> coerced) \<Rightarrow> obj \<Rightarrow> joi_error + perk_fields" where
  "perkUpdateSchema_validate c body =
     (case optional ''title'' (joi_string_min ''title'' 2) body of
        Inl e \<Rightarrow> Inl e
      | Inr t \<Rightarrow>
     (case optional ''description'' (joi_string_allow_empty ''description'') body of
        Inl e \<Rightarrow> Inl e
      | Inr d \<Rightarrow>
     (case optional ''category'' (joi_string_valid ''category'' categories) body of
        Inl e \<Rightarrow> Inl e
      | Inr cat \<Rightarrow>
     (case optional ''discountPercent''
             (joi_number_min_max c ''discountPercent'' 0 100) body of
        Inl e \<Rightarrow> Inl e
      | Inr p \<Rightarrow>
     (case optional ''merchant'' (joi_string_allow_empty ''merchant'') body of
        Inl e \<Rightarrow> Inl e
      | Inr m \<Rightarrow>
     (case unknown_key body of
        Some k \<Rightarrow> Inl (ObjectUnknown k)
      | None \<Rightarrow>
          if length body < 1 then Inl (ObjectMin 1)
          else Inr \<lparr>f_title = t, f_description = d, f_category = cat,
                    f_discountPercent = p, f_merchant = m\<rparr>))))))"

section \<open>The persistence layer as the controller sees it\<close>

text \<open>
  Modelled from the spec: the \<open>Perk\<close> model (\<open>models/Perk.js\<close>) is not among the sources.
  A stored perk has the fields of the spec's data model; the identifier is opaque and is
  a number here.
\<close>

type_synonym perk_id = nat

record perk =
  perk_id :: perk_id
  title :: string
  description :: "string option"
  category :: string
  discountPercent :: rat
  merchant :: "string option"
  createdAt :: nat

text \<open>An error the persistence layer throws; \<open>err.code\<close> is a number when it has one.\<close>

datatype js_error = JsError (err_code: "int option")

text \<open>
  The four calls the handlers below make on the model, over a store of any type \<open>'s\<close>.
  \<open>Perk_find M t\<close> stands for \<open>Perk.find({ title: t }).sort({ createdAt: -1 })\<close>. A call
  throws (\<open>Inl\<close>) or returns; a lookup by id returns \<open>None\<close> for \<open>null\<close>.
\<close>

record 's perk_model =
  Perk_find :: "string \<Rightarrow> 's \<Rightarrow> js_error + perk list"
  Perk_create :: "perk_fields \<Rightarrow> 's \<Rightarrow> (js_error + perk) \<times> 's"
  Perk_findByIdAndUpdate :: "perk_id \<Rightarrow> perk_fields \<Rightarrow> 's \<Rightarrow> (js_error + perk option) \<times> 's"
  Perk_findByIdAndDelete :: "perk_id \<Rightarrow> 's \<Rightarrow> (js_error + perk option) \<times> 's"

datatype db_call =
    Find string
  | Create perk_fields
  | FindByIdAndUpdate perk_id perk_fields
  | FindByIdAndDelete perk_id

section \<open>The handlers\<close>

text \<open>
  A handler ends by sending a response (\<open>res.status(n).json(...)\<close>, 200 when no
  status is set) or by handing the error to \<open>next\<close>. It returns that outcome, the
  persistence calls it made, in order, and the store after them. \<open>req.body\<close> is the
  parsed object, \<open>req.params.id\<close> the identifier the store looks up, and each \<open>await\<close>
  is the call made in sequence.
\<close>

datatype payload =
    Message string
  | ValidationMessage joi_error
  | PerkDoc perk
  | PerkList "perk list"
  | Ok bool

datatype outcome = Responded nat payload | Forwarded js_error

text \<open>\<open>req.query.title\<close> is \<open>None\<close> when the parameter is missing; \<open>if (title)\<close> is false
  for a missing parameter and for the empty string.\<close>

definition filterPerks ::
  "'s perk_model \<Rightarrow> string option \<Rightarrow> 's \<Rightarrow> outcome \<times> db_call list \<times> 's" where
  "filterPerks M query_title s =
     (case query_title of
        Some t \<Rightarrow>
          if t \<noteq> [] then
            (case Perk_find M t s of
               Inr perks \<Rightarrow> (Responded 200 (PerkList perks), [Find t], s)
             | Inl err \<Rightarrow> (Forwarded err, [Find t], s))
          else (Responded 400 (Message ''Title query parameter is required''), [], s)
      | None \<Rightarrow> (Responded 400 (Message ''Title query parameter is required''), [], s))"

definition createPerk ::
  "(string \<Rightarrow> coerced) \<Rightarrow> 's perk_model \<Rightarrow> obj \<Rightarrow> 's \<Rightarrow> outcome \<times> db_call list \<times> 's" where
  "createPerk c M body s =
     (case perkSchema_validate c body of
        Inl error \<Rightarrow> (Responded 400 (ValidationMessage error), [], s)
      | Inr v \<Rightarrow>
          (case Perk_create M v s of
             (Inr doc, s') \<Rightarrow> (Responded 201 (PerkDoc doc), [Create v], s')
           | (Inl err, s') \<Rightarrow>
               if err_code err = Some 11000
               then (Responded 409 (Message ''Duplicate perk for this merchant''),
                     [Create v], s')
               else (Forwarded err, [Create v], s')))"

definition updatePerk ::
  "(string \<Rightarrow> coerced) \<Rightarrow> 's perk_model \<Rightarrow> perk_id \<Rightarrow> obj \<Rightarrow> 's
     \<Rightarrow> outcome \<times> db_call list \<times> 's" where
  "updatePerk c M i body s =
     (case perkUpdateSchema_validate c body of
        Inl error \<Rightarrow> (Responded 400 (ValidationMessage error), [], s)
      | Inr v \<Rightarrow>
          (case Perk_findByIdAndUpdate M i v s of
             (Inr None, s') \<Rightarrow>
               (Responded 404 (Message ''Perk not found''), [FindByIdAndUpdate i v], s')
           | (Inr (Some doc), s') \<Rightarrow>
               (Responded 200 (PerkDoc doc), [FindByIdAndUpdate i v], s')
           | (Inl err, s') \<Rightarrow> (Forwarded err, [FindByIdAndUpdate i v], s')))"

definition deletePerk ::
  "'s perk_model \<Rightarrow> perk_id \<Rightarrow> 's \<Rightarrow> outcome \<times> db_call list \<times> 's" where
  "deletePerk M i s =
     (case Perk_findByIdAndDelete M i s of
        (Inr None, s') \<Rightarrow>
          (Responded 404 (Message ''Perk not found''), [FindByIdAndDelete i], s')
      | (Inr (Some doc), s') \<Rightarrow> (Responded 200 (Ok True), [FindByIdAndDelete i], s')
      | (Inl err, s') \<Rightarrow> (Forwarded err, [FindByIdAndDelete i], s'))"

section \<open>A store for the model\<close>

text \<open>
  Modelled from the spec: the store behind the \<open>Perk\<close> model, which is not among the
  sources. It keeps the perks in insertion order, assigns the identifier and the creation
  time, fills in the defaults of the data model, keeps the category within the five values
  and the discount within 0 and 100, and refuses a second perk with the same merchant
  value with error code 11000, on create and on update alike, so that the merchant values
  of the stored perks stay unique. An update that is accepted sets the submitted fields
  and leaves the others; an identifier names at most one perk.
\<close>

record store =
  perks :: "perk list"
  next_id :: nat
  clock :: nat

text \<open>Modelled from the spec: the lookup of a perk by its identifier (the model is missing).\<close>

definition by_id :: "perk_id \<Rightarrow> store \<Rightarrow> perk option" where
  "by_id i s = List.find (\<lambda>p. perk_id p = i) (perks s)"

text \<open>Modelled from the spec: the store's uniqueness constraint, which the missing model declares:
  a perk with the same merchant value is a duplicate.\<close>

definition same_merchant :: "perk_fields \<Rightarrow> perk \<Rightarrow> bool" where
  "same_merchant v p = (f_merchant v \<noteq> None \<and> merchant p = f_merchant v)"

text \<open>Modelled from the spec: the document the missing model builds from the submitted fields: title
  required, category and discount defaulted and kept within their constraints.\<close>

definition new_perk :: "perk_fields \<Rightarrow> store \<Rightarrow> perk option" where
  "new_perk v s =
     (case f_title v of
        None \<Rightarrow> None
      | Some t \<Rightarrow>
          let cat = (case f_category v of None \<Rightarrow> ''other'' | Some x \<Rightarrow> x);
              pct = (case f_discountPercent v of None \<Rightarrow> 0 | Some x \<Rightarrow> x)
          in if cat \<in> set categories \<and> 0 \<le> pct \<and> pct \<le> 100
             then Some \<lparr>perk_id = next_id s, title = t, description = f_description v,
                        category = cat, discountPercent = pct, merchant = f_merchant v,
                        createdAt = clock s\<rparr>
             else None)"

text \<open>Modelled from the spec: \<open>Perk.create\<close> of the missing model: a duplicate is refused with code
  11000, anything else is stored with a fresh identifier and the current time.\<close>

definition store_create :: "perk_fields \<Rightarrow> store \<Rightarrow> (js_error + perk) \<times> store" where
  "store_create v s =
     (case new_perk v s of
        None \<Rightarrow> (Inl (JsError None), s)
      | Some doc \<Rightarrow>
          if list_ex (same_merchant v) (perks s) then (Inl (JsError (Some 11000)), s)
          else (Inr doc,
                \<lparr>perks = perks s @ [doc], next_id = Suc (next_id s), clock = Suc (clock s)\<rparr>))"

text \<open>Modelled from the spec: \<open>Perk.find({ title }).sort({ createdAt: -1 })\<close> of the missing model:
  the perks with exactly that title, newest first.\<close>

definition store_find :: "string \<Rightarrow> store \<Rightarrow> js_error + perk list" where
  "store_find t s =
     Inr (sort_key (\<lambda>p. - int (createdAt p)) (filter (\<lambda>p. title p = t) (perks s)))"

text \<open>Modelled from the spec: \<open>$set\<close> on a stored perk: the submitted fields are overwritten, the
  others are left (the model is missing).\<close>

definition set_fields :: "perk_fields \<Rightarrow> perk \<Rightarrow> perk" where
  "set_fields v p =
     p\<lparr>title := (case f_title v of None \<Rightarrow> title p | Some x \<Rightarrow> x),
       description := (case f_description v of None \<Rightarrow> description p | Some x \<Rightarrow> Some x),
       category := (case f_category v of None \<Rightarrow> category p | Some x \<Rightarrow> x),
       discountPercent :=
         (case f_discountPercent v of None \<Rightarrow> discountPercent p | Some x \<Rightarrow> x),
       merchant := (case f_merchant v of None \<Rightarrow> merchant p | Some x \<Rightarrow> Some x)\<rparr>"

text \<open>Modelled from the spec: the uniqueness constraint at an update of perk \<open>i\<close> (the
  model is missing): the submitted merchant value is the one of another stored perk.\<close>

definition merchant_taken :: "perk_id \<Rightarrow> perk_fields \<Rightarrow> store \<Rightarrow> bool" where
  "merchant_taken i v s = list_ex (\<lambda>q. perk_id q \<noteq> i \<and> same_merchant v q) (perks s)"

text \<open>Modelled from the spec: \<open>Perk.findByIdAndUpdate(id, { $set: value }, { new: true })\<close>
  of the missing model: \<open>null\<close> for an unknown id; an update that would give the perk the
  merchant value of another perk is refused with code 11000 and changes nothing; else the
  perk after the update.\<close>

definition store_findByIdAndUpdate ::
  "perk_id \<Rightarrow> perk_fields \<Rightarrow> store \<Rightarrow> (js_error + perk option) \<times> store" where
  "store_findByIdAndUpdate i v s =
     (case by_id i s of
        None \<Rightarrow> (Inr None, s)
      | Some p \<Rightarrow>
          if merchant_taken i v s then (Inl (JsError (Some 11000)), s)
          else
            (Inr (Some (set_fields v p)),
             s\<lparr>perks := map (\<lambda>q. if perk_id q = i then set_fields v q else q) (perks s)\<rparr>))"

text \<open>Modelled from the spec: \<open>Perk.findByIdAndDelete(id)\<close> of the missing model: \<open>null\<close> for
  an unknown id, else the perk, which is removed.\<close>

definition store_findByIdAndDelete ::
  "perk_id \<Rightarrow> store \<Rightarrow> (js_error + perk option) \<times> store" where
  "store_findByIdAndDelete i s =
     (case by_id i s of
        None \<Rightarrow> (Inr None, s)
      | Some p \<Rightarrow> (Inr (Some p), s\<lparr>perks := filter (\<lambda>q. perk_id q \<noteq> i) (perks s)\<rparr>))"

text \<open>Modelled from the spec: the \<open>Perk\<close> model the controller imports, which is missing, over the
  store above.\<close>

definition Perk :: "store perk_model" where
  "Perk =
     \<lparr>Perk_find = store_find, Perk_create = store_create,
      Perk_findByIdAndUpdate = store_findByIdAndUpdate,
      Perk_findByIdAndDelete = store_findByIdAndDelete\<rparr>"

section \<open>Sample requests and stores\<close>

text \<open>A validator under which no string reads as a number.\<close>

definition no_coercion :: "string \<Rightarrow> coerced" where
  "no_coercion s = NotNumeric"

definition empty_store :: store where
  "empty_store = \<lparr>perks = [], next_id = 0, clock = 0\<rparr>"

definition example_body :: obj where
  "example_body = [(''title'', JString ''Free Coffee''), (''merchant'', JString ''Acme'')]"

definition example_fields :: perk_fields where
  "example_fields =
     \<lparr>f_title = Some ''Free Coffee'', f_description = None, f_category = Some ''other'',
      f_discountPercent = Some 0, f_merchant = Some ''Acme''\<rparr>"

definition coffee :: perk where
  "coffee =
     \<lparr>perk_id = 0, title = ''Free Coffee'', description = None, category = ''other'',
      discountPercent = 0, merchant = Some ''Acme'', createdAt = 0\<rparr>"

definition acme_store :: store where
  "acme_store = \<lparr>perks = [coffee], next_id = 1, clock = 1\<rparr>"

definition discount_body :: obj where
  "discount_body = [(''discountPercent'', JNumber 25)]"

definition discount_fields :: perk_fields where
  "discount_fields =
     \<lparr>f_title = None, f_description = None, f_category = None,
      f_discountPercent = Some 25, f_merchant = None\<rparr>"

definition tea :: perk where
  "tea =
     \<lparr>perk_id = 1, title = ''Green Tea'', description = None, category = ''food'',
      discountPercent = 10, merchant = Some ''Beta'', createdAt = 1\<rparr>"

definition two_store :: store where
  "two_store = \<lparr>perks = [coffee, tea], next_id = 2, clock = 2\<rparr>"

definition merchant_body :: obj where
  "merchant_body = [(''merchant'', JString ''Acme'')]"

definition merchant_fields :: perk_fields where
  "merchant_fields =
     \<lparr>f_title = None, f_description = None, f_category = None,
      f_discountPercent = None, f_merchant = Some ''Acme''\<rparr>"

section \<open>What a successful validation says about the body\<close>

lemma required_Inr:
  "required k rule body = Inr x \<Longrightarrow> \<exists>j a. map_of body k = Some j \<and> rule j = Inr a \<and> x = Some a"
  by (auto simp: required_def split: option.splits sum.splits)

lemma optional_Inr:
  "optional k rule body = Inr x \<Longrightarrow>
     (map_of body k = None \<and> x = None) \<or>
     (\<exists>j a. map_of body k = Some j \<and> rule j = Inr a \<and> x = Some a)"
  by (auto simp: optional_def split: option.splits sum.splits)

lemma optional_absent:
  "optional k rule body = Inr x \<Longrightarrow> map_of body k = None \<Longrightarrow> x = None"
  by (auto dest: optional_Inr)

lemma with_default_Inr:
  "with_default k d rule body = Inr x \<Longrightarrow>
     (map_of body k = None \<and> x = Some d) \<or>
     (\<exists>j a. map_of body k = Some j \<and> rule j = Inr a \<and> x = Some a)"
  by (auto simp: with_default_def split: option.splits sum.splits)

lemma joi_string_min_Inr:
  "joi_string_min k n j = Inr a \<Longrightarrow> j = JString a \<and> a \<noteq> [] \<and> n \<le> length a"
  by (auto simp: joi_string_min_def split: json.splits if_splits)

lemma joi_string_allow_empty_Inr:
  "joi_string_allow_empty k j = Inr a \<Longrightarrow> j = JString a"
  by (auto simp: joi_string_allow_empty_def split: json.splits)

lemma joi_string_valid_Inr:
  "joi_string_valid k allowed j = Inr a \<Longrightarrow> j = JString a \<and> a \<in> set allowed"
  by (auto simp: joi_string_valid_def split: json.splits if_splits)

lemma number_rules_Inr:
  "number_rules k lo hi n = Inr a \<Longrightarrow> a = n \<and> lo \<le> a \<and> a \<le> hi"
  by (auto simp: number_rules_def split: if_splits)

lemma joi_number_min_max_Inr:
  "joi_number_min_max c k lo hi j = Inr a \<Longrightarrow>
     lo \<le> a \<and> a \<le> hi \<and> (j = JNumber a \<or> (\<exists>s. j = JString s \<and> c s = Coerced a))"
  by (auto simp: joi_number_min_max_def split: json.splits coerced.splits
        dest: number_rules_Inr)

lemma perkSchema_validate_Inr:
  assumes "perkSchema_validate c body = Inr v"
  shows "required ''title'' (joi_string_min ''title'' 2) body = Inr (f_title v)"
    and "optional ''description'' (joi_string_allow_empty ''description'') body
           = Inr (f_description v)"
    and "with_default ''category'' ''other'' (joi_string_valid ''category'' categories) body
           = Inr (f_category v)"
    and "with_default ''discountPercent'' 0
           (joi_number_min_max c ''discountPercent'' 0 100) body = Inr (f_discountPercent v)"
    and "optional ''merchant'' (joi_string_allow_empty ''merchant'') body = Inr (f_merchant v)"
    and "unknown_key body = None"
  using assms
  by (auto simp: perkSchema_validate_def split: sum.splits option.splits)

lemma perkUpdateSchema_validate_Inr:
  assumes "perkUpdateSchema_validate c body = Inr v"
  shows "optional ''title'' (joi_string_min ''title'' 2) body = Inr (f_title v)"
    and "optional ''description'' (joi_string_allow_empty ''description'') body
           = Inr (f_description v)"
    and "optional ''category'' (joi_string_valid ''category'' categories) body
           = Inr (f_category v)"
    and "optional ''discountPercent''
           (joi_number_min_max c ''discountPercent'' 0 100) body = Inr (f_discountPercent v)"
    and "optional ''merchant'' (joi_string_allow_empty ''merchant'') body = Inr (f_merchant v)"
    and "unknown_key body = None"
    and "body \<noteq> []"
  using assms
  by (auto simp: perkUpdateSchema_validate_def split: sum.splits option.splits if_splits)

lemma unknown_key_Some:
  assumes "k \<in> fst ` set body" and "k \<notin> set schema_keys"
  shows "\<exists>k'. unknown_key body = Some k'"
proof (cases "unknown_key body")
  case None
  with assms show ?thesis by (auto simp: unknown_key_def find_None_iff)
qed simp

lemma example_body_valid: "perkSchema_validate no_coercion example_body = Inr example_fields"
  by (simp add: example_body_def example_fields_def perkSchema_validate_def required_def
        optional_def with_default_def joi_string_min_def joi_string_allow_empty_def
        unknown_key_def schema_keys_def)

lemma discount_body_valid:
  "perkUpdateSchema_validate no_coercion discount_body = Inr discount_fields"
  by (simp add: discount_body_def discount_fields_def perkUpdateSchema_validate_def
        optional_def joi_number_min_max_def number_rules_def MAX_SAFE_INTEGER_def
        unknown_key_def schema_keys_def)

section \<open>Rejected create requests\<close>

lemma required_title_Inl:
  assumes "map_of body ''title'' = None \<or>
           (\<exists>t. map_of body ''title'' = Some (JString t) \<and> length t < 2)"
  shows "\<exists>e. e \<in> {AnyRequired ''title'', StringEmpty ''title'', StringMin ''title'' 2} \<and>
             required ''title'' (joi_string_min ''title'' 2) body = Inl e"
  using assms by (auto simp: required_def joi_string_min_def)

text \<open>
  Claim C1. A create request whose body has no \<open>title\<close>, or whose \<open>title\<close> is a string of
  fewer than two code units, is answered 400 with the validator's message: the key is
  required, the string is empty, or it is shorter than 2. The handler makes no persistence
  call and the store is what it was.
\<close>

theorem createPerk_title_missing_or_short:
  assumes "map_of body ''title'' = None \<or>
           (\<exists>t. map_of body ''title'' = Some (JString t) \<and> length t < 2)"
  shows "\<exists>e. e \<in> {AnyRequired ''title'', StringEmpty ''title'', StringMin ''title'' 2} \<and>
             perkSchema_validate c body = Inl e \<and>
             createPerk c M body s = (Responded 400 (ValidationMessage e), [], s)"
proof -
  from required_title_Inl [OF assms]
  obtain e where e: "e \<in> {AnyRequired ''title'', StringEmpty ''title'', StringMin ''title'' 2}"
    and r: "required ''title'' (joi_string_min ''title'' 2) body = Inl e"
    by blast
  from r have v: "perkSchema_validate c body = Inl e"
    by (simp add: perkSchema_validate_def)
  then have "createPerk c M body s = (Responded 400 (ValidationMessage e), [], s)"
    by (simp add: createPerk_def)
  with e v show ?thesis by blast
qed

theorem createPerk_title_missing_or_short_witness:
  "(\<exists>e. createPerk no_coercion Perk [(''title'', JString ''a'')] empty_store
          = (Responded 400 (ValidationMessage e), [], empty_store)) \<and>
   (\<exists>e. createPerk no_coercion Perk [(''merchant'', JString ''Acme'')] empty_store
          = (Responded 400 (ValidationMessage e), [], empty_store))"
  using createPerk_title_missing_or_short
          [of "[(''title'', JString ''a'')]" no_coercion Perk empty_store]
        createPerk_title_missing_or_short
          [of "[(''merchant'', JString ''Acme'')]" no_coercion Perk empty_store]
  by auto

text \<open>
  Claim C10. A create request whose body has a key outside \<open>title\<close>, \<open>description\<close>,
  \<open>category\<close>, \<open>discountPercent\<close> and \<open>merchant\<close> is answered 400 with no persistence call,
  and so is an update request with such a key: both schemas reject unknown keys.
\<close>

theorem createPerk_unknown_key:
  assumes "k \<in> fst ` set body" and "k \<notin> set schema_keys"
  shows "(\<exists>e. perkSchema_validate c body = Inl e \<and>
              createPerk c M body s = (Responded 400 (ValidationMessage e), [], s)) \<and>
         (\<exists>e. perkUpdateSchema_validate c body = Inl e \<and>
              updatePerk c M i body s = (Responded 400 (ValidationMessage e), [], s))"
proof
  show "\<exists>e. perkSchema_validate c body = Inl e \<and>
            createPerk c M body s = (Responded 400 (ValidationMessage e), [], s)"
  proof (cases "perkSchema_validate c body")
    case (Inl e)
    then show ?thesis by (simp add: createPerk_def)
  next
    case (Inr v)
    from perkSchema_validate_Inr(6) [OF Inr] unknown_key_Some [OF assms]
    show ?thesis by simp
  qed
  show "\<exists>e. perkUpdateSchema_validate c body = Inl e \<and>
            updatePerk c M i body s = (Responded 400 (ValidationMessage e), [], s)"
  proof (cases "perkUpdateSchema_validate c body")
    case (Inl e)
    then show ?thesis by (simp add: updatePerk_def)
  next
    case (Inr v)
    from perkUpdateSchema_validate_Inr(6) [OF Inr] unknown_key_Some [OF assms]
    show ?thesis by simp
  qed
qed

theorem createPerk_unknown_key_witness:
  "\<exists>e. createPerk no_coercion Perk
          [(''title'', JString ''Free Coffee''), (''price'', JNumber 3)] empty_store
        = (Responded 400 (ValidationMessage e), [], empty_store)"
  using createPerk_unknown_key
          [of "''price''" "[(''title'', JString ''Free Coffee''), (''price'', JNumber 3)]"
              no_coercion Perk empty_store]
  by (auto simp: schema_keys_def)

section \<open>Accepted create requests\<close>

text \<open>
  Claim C2. When a create payload passes validation, the one persistence call the handler
  makes is the create call with the validated value, and that value has a category among
  \<open>food\<close>, \<open>tech\<close>, \<open>travel\<close>, \<open>fitness\<close>, \<open>other\<close> and a discount between 0 and 100,
  both ends included.
\<close>

theorem createPerk_stores_valid_perk:
  assumes "perkSchema_validate c body = Inr v"
  shows "fst (snd (createPerk c M body s)) = [Create v] \<and>
         (\<exists>cat pct. f_category v = Some cat \<and> cat \<in> set categories \<and>
                     f_discountPercent v = Some pct \<and> 0 \<le> pct \<and> pct \<le> 100)"
proof -
  have calls: "fst (snd (createPerk c M body s)) = [Create v]"
    using assms by (simp add: createPerk_def split: prod.splits sum.splits)
  from with_default_Inr [OF perkSchema_validate_Inr(3) [OF assms]]
  obtain cat where cat: "f_category v = Some cat" "cat \<in> set categories"
    by (auto simp: categories_def dest: joi_string_valid_Inr)
  from with_default_Inr [OF perkSchema_validate_Inr(4) [OF assms]]
  obtain pct where pct: "f_discountPercent v = Some pct" "0 \<le> pct" "pct \<le> 100"
    by (auto dest: joi_number_min_max_Inr)
  from calls cat pct show ?thesis by blast
qed

theorem createPerk_stores_valid_perk_witness:
  "fst (snd (createPerk no_coercion Perk example_body empty_store)) = [Create example_fields] \<and>
   (\<exists>cat pct. f_category example_fields = Some cat \<and> cat \<in> set categories \<and>
               f_discountPercent example_fields = Some pct \<and> 0 \<le> pct \<and> pct \<le> 100)"
  using createPerk_stores_valid_perk [OF example_body_valid, of Perk empty_store]
  by simp

text \<open>
  Claim C4. When the payload passes validation and the persistence create call throws an
  error whose code is 11000, the duplicate-key code, the handler answers 409 with the
  message \<open>Duplicate perk for this merchant\<close>; the error is not handed to \<open>next\<close>.
\<close>

theorem createPerk_duplicate_409:
  assumes "perkSchema_validate c body = Inr v"
    and "Perk_create M v s = (Inl err, s')"
    and "err_code err = Some 11000"
  shows "createPerk c M body s =
           (Responded 409 (Message ''Duplicate perk for this merchant''), [Create v], s') \<and>
         fst (createPerk c M body s) \<noteq> Forwarded err"
  using assms by (simp add: createPerk_def)

lemma acme_store_duplicate:
  "Perk_create Perk example_fields acme_store = (Inl (JsError (Some 11000)), acme_store)"
  by (simp add: Perk_def store_create_def new_perk_def categories_def example_fields_def
        acme_store_def coffee_def same_merchant_def)

theorem createPerk_duplicate_409_witness:
  "createPerk no_coercion Perk example_body acme_store =
     (Responded 409 (Message ''Duplicate perk for this merchant''),
      [Create example_fields], acme_store)"
  using createPerk_duplicate_409 [OF example_body_valid acme_store_duplicate]
  by simp

text \<open>
  Claim C8, as amended. A valid create payload without \<open>category\<close> and \<open>discountPercent\<close>,
  sent when no stored perk has the same merchant value, is answered 201 with the created
  perk wrapped in an object; the created perk is stored, its category is \<open>other\<close>, its
  discount is 0, and its title and merchant are the submitted ones.
\<close>

theorem createPerk_defaults:
  assumes v: "perkSchema_validate c body = Inr v"
    and nocat: "map_of body ''category'' = None"
    and nopct: "map_of body ''discountPercent'' = None"
    and fresh: "\<not> list_ex (same_merchant v) (perks s)"
  shows "\<exists>doc s'. createPerk c Perk body s = (Responded 201 (PerkDoc doc), [Create v], s') \<and>
           doc \<in> set (perks s') \<and>
           category doc = ''other'' \<and> discountPercent doc = 0 \<and>
           map_of body ''title'' = Some (JString (title doc)) \<and>
           map_option JString (merchant doc) = map_of body ''merchant''"
proof -
  from required_Inr [OF perkSchema_validate_Inr(1) [OF v]]
  obtain t where t: "f_title v = Some t" "map_of body ''title'' = Some (JString t)"
    by (auto dest: joi_string_min_Inr)
  from with_default_Inr [OF perkSchema_validate_Inr(3) [OF v]] nocat
  have cat: "f_category v = Some ''other''" by auto
  from with_default_Inr [OF perkSchema_validate_Inr(4) [OF v]] nopct
  have pct: "f_discountPercent v = Some 0" by auto
  from optional_Inr [OF perkSchema_validate_Inr(5) [OF v]]
  have m: "map_option JString (f_merchant v) = map_of body ''merchant''"
    by (auto dest: joi_string_allow_empty_Inr)
  let ?doc = "\<lparr>perk_id = next_id s, title = t, description = f_description v,
               category = ''other'', discountPercent = 0, merchant = f_merchant v,
               createdAt = clock s\<rparr>"
  have new: "new_perk v s = Some ?doc"
    using t cat pct by (simp add: new_perk_def categories_def)
  have "createPerk c Perk body s
          = (Responded 201 (PerkDoc ?doc), [Create v],
             \<lparr>perks = perks s @ [?doc], next_id = Suc (next_id s), clock = Suc (clock s)\<rparr>)"
    using v new fresh by (simp add: createPerk_def Perk_def store_create_def)
  with t m show ?thesis by simp
qed

theorem createPerk_defaults_witness:
  "\<exists>doc s'. createPerk no_coercion Perk example_body empty_store
              = (Responded 201 (PerkDoc doc), [Create example_fields], s') \<and>
     category doc = ''other'' \<and> discountPercent doc = 0 \<and>
     title doc = ''Free Coffee'' \<and> merchant doc = Some ''Acme''"
  using createPerk_defaults [OF example_body_valid, of empty_store]
  by (auto simp: example_body_def empty_store_def)

text \<open>
  The claim as first stated promises 201 for every such payload. The example payload is
  valid and has neither key, and sent to a store that already holds a perk of merchant
  \<open>Acme\<close> it is answered 409.
\<close>

theorem createPerk_defaults_counterexample:
  "perkSchema_validate no_coercion example_body = Inr example_fields \<and>
   map_of example_body ''category'' = None \<and>
   map_of example_body ''discountPercent'' = None \<and>
   fst (createPerk no_coercion Perk example_body acme_store)
     = Responded 409 (Message ''Duplicate perk for this merchant'') \<and>
   (\<forall>doc. fst (createPerk no_coercion Perk example_body acme_store)
     \<noteq> Responded 201 (PerkDoc doc))"
  by (simp add: example_body_valid acme_store_duplicate createPerk_def)
    (simp add: example_body_def)

section \<open>Update requests\<close>

text \<open>
  Claim C7. An update request whose body is the empty object is answered 400: the update
  schema asks for at least one key. The handler makes no persistence call.
\<close>

theorem updatePerk_empty_body:
  "updatePerk c M i [] s = (Responded 400 (ValidationMessage (ObjectMin 1)), [], s)"
  by (simp add: updatePerk_def perkUpdateSchema_validate_def optional_def unknown_key_def)

text \<open>
  Claim C5, as amended. The body is validated before the store is asked. A body that
  fails the update schema is answered 400 with no persistence call, whatever the id; a
  body that passes, for an id the store finds no perk for, is answered 404.
\<close>

theorem updatePerk_absent_id:
  "(\<forall>e. perkUpdateSchema_validate c body = Inl e \<longrightarrow>
        updatePerk c M i body s = (Responded 400 (ValidationMessage e), [], s)) \<and>
   (\<forall>v s'. perkUpdateSchema_validate c body = Inr v \<longrightarrow>
        Perk_findByIdAndUpdate M i v s = (Inr None, s') \<longrightarrow>
        updatePerk c M i body s =
          (Responded 404 (Message ''Perk not found''), [FindByIdAndUpdate i v], s'))"
  by (simp add: updatePerk_def)

lemma title_number_invalid:
  "perkUpdateSchema_validate no_coercion [(''title'', JNumber 3)] = Inl (StringBase ''title'')"
  by (simp add: perkUpdateSchema_validate_def optional_def joi_string_min_def)

lemma empty_store_no_perk:
  "Perk_findByIdAndUpdate Perk 7 v empty_store = (Inr None, empty_store)"
  by (simp add: Perk_def store_findByIdAndUpdate_def by_id_def empty_store_def)

theorem updatePerk_absent_id_witness:
  "updatePerk no_coercion Perk 7 [(''title'', JNumber 3)] empty_store
     = (Responded 400 (ValidationMessage (StringBase ''title'')), [], empty_store) \<and>
   updatePerk no_coercion Perk 7 discount_body empty_store
     = (Responded 404 (Message ''Perk not found''),
        [FindByIdAndUpdate 7 discount_fields], empty_store)"
  using updatePerk_absent_id [of no_coercion "[(''title'', JNumber 3)]" Perk 7 empty_store]
        updatePerk_absent_id [of no_coercion discount_body Perk 7 empty_store]
        title_number_invalid discount_body_valid empty_store_no_perk [of discount_fields]
  by simp

text \<open>
  The claim as first stated promises 404 whether the body is valid or not. In the empty
  store the id 7 names no perk, and an update of it with the empty object is answered
  400, not 404.
\<close>

theorem updatePerk_absent_id_counterexample:
  "by_id 7 empty_store = None \<and>
   fst (updatePerk no_coercion Perk 7 [] empty_store)
     = Responded 400 (ValidationMessage (ObjectMin 1)) \<and>
   fst (updatePerk no_coercion Perk 7 [] empty_store)
     \<noteq> Responded 404 (Message ''Perk not found'')"
  by (simp add: by_id_def empty_store_def updatePerk_def perkUpdateSchema_validate_def
        optional_def unknown_key_def)

lemma perk_id_set_fields: "perk_id (set_fields v p) = perk_id p"
  by (simp add: set_fields_def)

lemma find_after_set_fields:
  "List.find (\<lambda>q. perk_id q = i) ps = Some p \<Longrightarrow>
   List.find (\<lambda>q. perk_id q = i) (map (\<lambda>q. if perk_id q = i then set_fields v q else q) ps)
     = Some (set_fields v p)"
  by (induction ps) (auto simp: perk_id_set_fields)

lemma others_after_set_fields:
  "filter (\<lambda>q. perk_id q \<noteq> i) (map (\<lambda>q. if perk_id q = i then set_fields v q else q) ps)
     = filter (\<lambda>q. perk_id q \<noteq> i) ps"
  by (induction ps) (auto simp: perk_id_set_fields)

text \<open>
  Claim C3, as amended. An update request with a valid body, for the id of a stored perk,
  that does not give the perk the merchant value of another stored perk, is answered 200
  with the perk as it is stored after the update, wrapped in an object. The update sets
  the validated fields and nothing else: a field whose key the body does not have keeps
  its stored value (none is reset to a default), the identifier and the creation time
  stay, and the other perks of the store are untouched.
\<close>

theorem updatePerk_partial_merge:
  assumes v: "perkUpdateSchema_validate c body = Inr v"
    and p: "by_id i s = Some p"
    and free: "\<not> merchant_taken i v s"
  shows "\<exists>p' s'. updatePerk c Perk i body s
                   = (Responded 200 (PerkDoc p'), [FindByIdAndUpdate i v], s') \<and>
           by_id i s' = Some p' \<and>
           filter (\<lambda>q. perk_id q \<noteq> i) (perks s') = filter (\<lambda>q. perk_id q \<noteq> i) (perks s) \<and>
           perk_id p' = perk_id p \<and> createdAt p' = createdAt p \<and>
           (map_of body ''title'' = None \<longrightarrow> title p' = title p) \<and>
           (map_of body ''description'' = None \<longrightarrow> description p' = description p) \<and>
           (map_of body ''category'' = None \<longrightarrow> category p' = category p) \<and>
           (map_of body ''discountPercent'' = None \<longrightarrow>
              discountPercent p' = discountPercent p) \<and>
           (map_of body ''merchant'' = None \<longrightarrow> merchant p' = merchant p) \<and>
           (\<forall>x. f_title v = Some x \<longrightarrow> title p' = x) \<and>
           (\<forall>x. f_description v = Some x \<longrightarrow> description p' = Some x) \<and>
           (\<forall>x. f_category v = Some x \<longrightarrow> category p' = x) \<and>
           (\<forall>x. f_discountPercent v = Some x \<longrightarrow> discountPercent p' = x) \<and>
           (\<forall>x. f_merchant v = Some x \<longrightarrow> merchant p' = Some x)"
proof -
  let ?s' = "s\<lparr>perks := map (\<lambda>q. if perk_id q = i then set_fields v q else q) (perks s)\<rparr>"
  let ?p' = "set_fields v p"
  have run: "updatePerk c Perk i body s
               = (Responded 200 (PerkDoc ?p'), [FindByIdAndUpdate i v], ?s')"
    using v p free by (simp add: updatePerk_def Perk_def store_findByIdAndUpdate_def)
  have stored: "by_id i ?s' = Some ?p'"
    using p by (simp add: by_id_def find_after_set_fields)
  have others: "filter (\<lambda>q. perk_id q \<noteq> i) (perks ?s') = filter (\<lambda>q. perk_id q \<noteq> i) (perks s)"
    by (simp add: others_after_set_fields)
  have fixed: "perk_id ?p' = perk_id p" "createdAt ?p' = createdAt p"
    by (simp_all add: set_fields_def)
  have t: "map_of body ''title'' = None \<longrightarrow> title ?p' = title p"
    using optional_absent [OF perkUpdateSchema_validate_Inr(1) [OF v]]
    by (auto simp: set_fields_def)
  have d: "map_of body ''description'' = None \<longrightarrow> description ?p' = description p"
    using optional_absent [OF perkUpdateSchema_validate_Inr(2) [OF v]]
    by (auto simp: set_fields_def)
  have cat: "map_of body ''category'' = None \<longrightarrow> category ?p' = category p"
    using optional_absent [OF perkUpdateSchema_validate_Inr(3) [OF v]]
    by (auto simp: set_fields_def)
  have pct: "map_of body ''discountPercent'' = None \<longrightarrow> discountPercent ?p' = discountPercent p"
    using optional_absent [OF perkUpdateSchema_validate_Inr(4) [OF v]]
    by (auto simp: set_fields_def)
  have m: "map_of body ''merchant'' = None \<longrightarrow> merchant ?p' = merchant p"
    using optional_absent [OF perkUpdateSchema_validate_Inr(5) [OF v]]
    by (auto simp: set_fields_def)
  have written:
    "\<forall>x. f_title v = Some x \<longrightarrow> title ?p' = x"
    "\<forall>x. f_description v = Some x \<longrightarrow> description ?p' = Some x"
    "\<forall>x. f_category v = Some x \<longrightarrow> category ?p' = x"
    "\<forall>x. f_discountPercent v = Some x \<longrightarrow> discountPercent ?p' = x"
    "\<forall>x. f_merchant v = Some x \<longrightarrow> merchant ?p' = Some x"
    by (simp_all add: set_fields_def)
  show ?thesis
    by (rule exI [of _ ?p'], rule exI [of _ ?s'])
       (intro conjI run stored others fixed t d cat pct m written)
qed

lemma coffee_stored: "by_id 0 acme_store = Some coffee"
  by (simp add: by_id_def acme_store_def coffee_def)

lemma acme_store_free: "\<not> merchant_taken 0 discount_fields acme_store"
  by (simp add: merchant_taken_def acme_store_def coffee_def)

theorem updatePerk_partial_merge_witness:
  "\<exists>p' s'. updatePerk no_coercion Perk 0 discount_body acme_store
             = (Responded 200 (PerkDoc p'), [FindByIdAndUpdate 0 discount_fields], s') \<and>
     by_id 0 s' = Some p' \<and>
     title p' = ''Free Coffee'' \<and> description p' = None \<and> category p' = ''other'' \<and>
     merchant p' = Some ''Acme'' \<and> discountPercent p' = 25"
  using updatePerk_partial_merge [OF discount_body_valid coffee_stored acme_store_free]
  by (auto simp: discount_body_def discount_fields_def coffee_def)

lemma merchant_body_valid:
  "perkUpdateSchema_validate no_coercion merchant_body = Inr merchant_fields"
  by (simp add: merchant_body_def merchant_fields_def perkUpdateSchema_validate_def
        optional_def joi_string_allow_empty_def unknown_key_def schema_keys_def)

lemma tea_stored: "by_id 1 two_store = Some tea"
  by (simp add: by_id_def two_store_def coffee_def tea_def)

lemma acme_taken: "merchant_taken 1 merchant_fields two_store"
  by (simp add: merchant_taken_def same_merchant_def merchant_fields_def two_store_def
        coffee_def tea_def)

lemma two_store_refuses:
  "Perk_findByIdAndUpdate Perk 1 merchant_fields two_store
     = (Inl (JsError (Some 11000)), two_store)"
  using tea_stored acme_taken by (simp add: Perk_def store_findByIdAndUpdate_def)

text \<open>
  The claim as first stated promises 200 for every valid body and stored id. In a store
  holding a perk of merchant \<open>Acme\<close> and a second perk of merchant \<open>Beta\<close>, the valid
  body \<open>{merchant: "Acme"}\<close> sent for the second perk is refused by the store with code
  11000; the update handler has no branch for that code and hands the error to \<open>next\<close>,
  and the store is unchanged.
\<close>

theorem updatePerk_partial_merge_counterexample:
  "perkUpdateSchema_validate no_coercion merchant_body = Inr merchant_fields \<and>
   by_id 1 two_store = Some tea \<and>
   updatePerk no_coercion Perk 1 merchant_body two_store
     = (Forwarded (JsError (Some 11000)), [FindByIdAndUpdate 1 merchant_fields], two_store) \<and>
   (\<forall>p'. fst (updatePerk no_coercion Perk 1 merchant_body two_store)
     \<noteq> Responded 200 (PerkDoc p'))"
proof -
  have run: "updatePerk no_coercion Perk 1 merchant_body two_store
               = (Forwarded (JsError (Some 11000)),
                  [FindByIdAndUpdate 1 merchant_fields], two_store)"
    using merchant_body_valid two_store_refuses by (simp add: updatePerk_def)
  with merchant_body_valid tea_stored show ?thesis by simp
qed

section \<open>Filtering by title\<close>

lemma store_find_sorted:
  assumes "store_find t s = Inr r"
  shows "mset r = mset (filter (\<lambda>p. title p = t) (perks s)) \<and>
         sorted_wrt (\<lambda>a b. createdAt b \<le> createdAt a) r"
proof -
  from assms
  have r: "r = sort_key (\<lambda>p. - int (createdAt p)) (filter (\<lambda>p. title p = t) (perks s))"
    by (simp add: store_find_def)
  have "sorted (map (\<lambda>p. - int (createdAt p)) r)"
    unfolding r by (rule sorted_sort_key)
  then have "sorted_wrt (\<lambda>a b. createdAt b \<le> createdAt a) r"
    by (simp add: sorted_map)
  moreover have "mset r = mset (filter (\<lambda>p. title p = t) (perks s))"
    unfolding r by simp
  ultimately show ?thesis by simp
qed

text \<open>
  Claim C6, as amended. When the \<open>title\<close> query parameter is missing or is the empty
  string, the handler answers 400 with the message that the parameter is required and
  makes no query. When it is a non-empty string, the handler makes one query and answers
  200 with its result: exactly the stored perks whose title equals the parameter (there
  may be none), newest first by creation time.
\<close>

theorem filterPerks_by_title:
  assumes "t \<noteq> []"
  shows "filterPerks Perk None s
           = (Responded 400 (Message ''Title query parameter is required''), [], s) \<and>
         filterPerks Perk (Some []) s
           = (Responded 400 (Message ''Title query parameter is required''), [], s) \<and>
         (\<exists>r. filterPerks Perk (Some t) s = (Responded 200 (PerkList r), [Find t], s) \<and>
              mset r = mset (filter (\<lambda>p. title p = t) (perks s)) \<and>
              sorted_wrt (\<lambda>a b. createdAt b \<le> createdAt a) r)"
proof -
  obtain r where r: "store_find t s = Inr r"
    by (simp add: store_find_def)
  from r assms have "filterPerks Perk (Some t) s = (Responded 200 (PerkList r), [Find t], s)"
    by (simp add: filterPerks_def Perk_def)
  with store_find_sorted [OF r] show ?thesis
    by (simp add: filterPerks_def)
qed

theorem filterPerks_by_title_witness:
  "filterPerks Perk None acme_store
     = (Responded 400 (Message ''Title query parameter is required''), [], acme_store) \<and>
   (\<exists>r. filterPerks Perk (Some ''Free Coffee'') acme_store
          = (Responded 200 (PerkList r), [Find ''Free Coffee''], acme_store) \<and>
        mset r = {#coffee#}) \<and>
   (\<exists>r. filterPerks Perk (Some ''Tea'') acme_store
          = (Responded 200 (PerkList r), [Find ''Tea''], acme_store) \<and>
        r = [])"
  using filterPerks_by_title [of "''Free Coffee''" acme_store]
        filterPerks_by_title [of "''Tea''" acme_store]
  by (auto simp: acme_store_def coffee_def)

text \<open>
  The claim as first stated promises a query and 200 whenever the parameter is present.
  A request with the parameter present and empty (\<open>?title=\<close>) is answered 400 and no
  query is made.
\<close>

theorem filterPerks_empty_title_counterexample:
  "filterPerks Perk (Some '''') acme_store
     = (Responded 400 (Message ''Title query parameter is required''), [], acme_store) \<and>
   (\<forall>r. fst (filterPerks Perk (Some '''') acme_store) \<noteq> Responded 200 (PerkList r))"
  by (simp add: filterPerks_def)

section \<open>Delete requests\<close>

lemma by_id_filter: "by_id i (s\<lparr>perks := filter (\<lambda>q. perk_id q \<noteq> i) (perks s)\<rparr>) = None"
  by (simp add: by_id_def find_None_iff)

text \<open>
  Claim C9. For the id of a stored perk, the first delete request is answered 200 with
  \<open>{ok: true}\<close>, and a second delete request for the same id, on the store the first one
  left, is answered 404 with the message \<open>Perk not found\<close>.
\<close>

theorem deletePerk_twice:
  assumes "by_id i s = Some p"
  shows "\<exists>s1. deletePerk Perk i s = (Responded 200 (Ok True), [FindByIdAndDelete i], s1) \<and>
              by_id i s1 = None \<and>
              deletePerk Perk i s1 =
                (Responded 404 (Message ''Perk not found''), [FindByIdAndDelete i], s1)"
  using assms
  by (simp add: deletePerk_def Perk_def store_findByIdAndDelete_def by_id_filter)

theorem deletePerk_twice_witness:
  "\<exists>s1. deletePerk Perk 0 acme_store = (Responded 200 (Ok True), [FindByIdAndDelete 0], s1) \<and>
        deletePerk Perk 0 s1 =
          (Responded 404 (Message ''Perk not found''), [FindByIdAndDelete 0], s1)"
  using deletePerk_twice [OF coffee_stored]
  by auto

end
